theory Spec2Isabelle
  imports Main
begin

section \<open>Exceptions, settings and time\<close>

text \<open>
  Every exception the modelled code can raise is a value; a function that may raise returns
  \<open>exc + 'a\<close> with \<open>Inl\<close> for the exception.

  \<^item> \<open>HTTPException status detail headers\<close> is FastAPI's exception.
  \<^item> \<open>PyJWTError\<close> are the exceptions of the module \<open>jwt\<close> (PyJWT) that
    \<open>src/utils/jwt.py\<close> imports and calls.
  \<^item> \<open>JoseJWTError\<close> is \<open>jose.JWTError\<close>, the class the \<open>except\<close> clauses of
    \<open>src/utils/jwt.py\<close> name (\<open>from jose import JWTError\<close>). It belongs to another
    library and is no base class of the PyJWT exceptions.
  \<^item> \<open>UnknownHashError\<close> and \<open>MalformedHashError\<close> are passlib's exceptions of these
    names (both are \<open>ValueError\<close>s).
  \<^item> \<open>RedisError\<close> is any error of the redis client.
  \<^item> \<open>IntegrityError\<close> is the database's refusal of a NULL in a NOT NULL column.
  \<^item> \<open>AttributeError\<close> is Python's error for a method the object does not have.
\<close>

datatype jwt_exc = DecodeError | InvalidSignatureError | ExpiredSignatureError

datatype exc =
    HTTPException nat string "(string \<times> string) list"
  | PyJWTError jwt_exc
  | JoseJWTError
  | UnknownHashError
  | MalformedHashError
  | RedisError
  | IntegrityError
  | AttributeError

text \<open>The header every 401 of the code carries.\<close>

definition bearer :: "(string \<times> string) list" where
  "bearer = [(''WWW-Authenticate'', ''Bearer'')]"

text \<open>
  A \<open>datetime\<close> is a number of microseconds since the epoch (the resolution of Python's
  \<open>datetime\<close>), a \<open>timedelta\<close> a number of microseconds. The clock
  (\<open>datetime.utcnow()\<close>) is an argument \<open>now\<close> of every function that reads it.
\<close>

type_synonym datetime = int
type_synonym timedelta = int

definition timedelta_hours :: "int \<Rightarrow> timedelta" where
  "timedelta_hours h = h * 3600 * 1000000"

definition timedelta_days :: "int \<Rightarrow> timedelta" where
  "timedelta_days d = d * 86400 * 1000000"

definition timedelta_seconds :: "int \<Rightarrow> timedelta" where
  "timedelta_seconds s = s * 1000000"

text \<open>\<open>src/config/settings.py\<close>: the fields the authentication core reads.\<close>

record settings =
  BETTER_AUTH_SECRET :: string
  JWT_EXPIRATION_HOURS :: int
  REDIS_URL :: "string option"

section \<open>Signed tokens (the calls into PyJWT)\<close>

text \<open>
  The claims dictionary, restricted to the four keys the code writes or reads, each with
  the type the issuing functions give it; \<open>None\<close> is an absent key, so \<open>payload.get(k)\<close>
  is the field itself. \<open>c_exp\<close> is in whole seconds, as in the encoded token.
\<close>

record claims =
  c_sub :: "string option"
  c_email :: "string option"
  c_exp :: "int option"
  c_type :: "string option"

text \<open>
  A token string is represented by what it parses to: \<open>JWT c k\<close> is the compact
  serialisation of the claims \<open>c\<close> with an HS256 signature made with key \<open>k\<close>;
  \<open>NotAJWT s\<close> is any string that does not parse as a signed token. The signature is an
  ideal MAC: it verifies exactly under the key that made it.
\<close>

datatype token = JWT claims string | NotAJWT string

text \<open>
  \<open>jwt.encode(payload, key, algorithm="HS256")\<close>, the payload's \<open>exp\<close> being a
  \<open>datetime\<close> or absent: PyJWT stores it as whole seconds
  (\<open>timegm(exp.utctimetuple())\<close>, which drops the microseconds).
\<close>

definition jwt_encode :: "claims \<Rightarrow> datetime option \<Rightarrow> string \<Rightarrow> token" where
  "jwt_encode payload expire key =
     JWT (payload\<lparr>c_exp := (case expire of None \<Rightarrow> c_exp payload
                                | Some t \<Rightarrow> Some (t div 1000000))\<rparr>) key"

text \<open>
  \<open>jwt.decode(token, key, algorithms=["HS256"])\<close> at clock \<open>now\<close> (PyJWT 2): the
  signature is checked first, then \<open>exp\<close> when present; the token is expired when
  \<open>exp <= now\<close>, with no leeway.
\<close>

definition jwt_decode :: "token \<Rightarrow> string \<Rightarrow> datetime \<Rightarrow> exc + claims" where
  "jwt_decode tok key now =
     (case tok of
        NotAJWT s \<Rightarrow> Inl (PyJWTError DecodeError)
      | JWT c k \<Rightarrow>
          if k \<noteq> key then Inl (PyJWTError InvalidSignatureError)
          else (case c_exp c of
                  None \<Rightarrow> Inr c
                | Some x \<Rightarrow> if x * 1000000 \<le> now then Inl (PyJWTError ExpiredSignatureError)
                            else Inr c))"

section \<open>\<open>src/utils/jwt.py\<close>\<close>

record token_data =
  td_user_id :: string
  td_email :: string

text \<open>\<open>if expires_delta:\<close> is false for \<open>None\<close> and for a zero \<open>timedelta\<close>.\<close>

definition create_access_token ::
  "settings \<Rightarrow> datetime \<Rightarrow> claims \<Rightarrow> timedelta option \<Rightarrow> token" where
  "create_access_token st now data expires_delta =
     (let to_encode = data;
          expire = (if expires_delta \<noteq> None \<and> expires_delta \<noteq> Some 0
                    then now + the expires_delta
                    else now + timedelta_hours (JWT_EXPIRATION_HOURS st))
      in jwt_encode to_encode (Some expire) (BETTER_AUTH_SECRET st))"

definition create_refresh_token ::
  "settings \<Rightarrow> datetime \<Rightarrow> claims \<Rightarrow> timedelta option \<Rightarrow> token" where
  "create_refresh_token st now data expires_delta =
     (let to_encode = data;
          expire = (if expires_delta \<noteq> None \<and> expires_delta \<noteq> Some 0
                    then now + the expires_delta
                    else now + timedelta_days 7)
      in jwt_encode (to_encode\<lparr>c_type := Some ''refresh''\<rparr>) (Some expire)
           (BETTER_AUTH_SECRET st))"

text \<open>
  \<open>verify_token\<close>: the body of the \<open>try\<close> is evaluated first; the handler
  \<open>except JWTError\<close> replaces only a \<open>jose.JWTError\<close>, every other exception leaves the
  function as it is.
\<close>

definition verify_token :: "settings \<Rightarrow> datetime \<Rightarrow> token \<Rightarrow> exc option \<Rightarrow> exc + token_data" where
  "verify_token st now tok credentials_exception =
     (let ce = (case credentials_exception of
                  None \<Rightarrow> HTTPException 401 ''Could not validate credentials'' bearer
                | Some e \<Rightarrow> e);
          body = (case jwt_decode tok (BETTER_AUTH_SECRET st) now of
                    Inl e \<Rightarrow> Inl e
                  | Inr payload \<Rightarrow>
                      if c_sub payload = None \<or> c_email payload = None then Inl ce
                      else Inr \<lparr>td_user_id = the (c_sub payload),
                                td_email = the (c_email payload)\<rparr>)
      in case body of
           Inl e \<Rightarrow> if e = JoseJWTError then Inl ce else Inl e
         | Inr token_data \<Rightarrow> Inr token_data)"

definition verify_access_token :: "settings \<Rightarrow> datetime \<Rightarrow> token \<Rightarrow> exc + token_data" where
  "verify_access_token st now tok = verify_token st now tok None"

definition verify_refresh_token :: "settings \<Rightarrow> datetime \<Rightarrow> token \<Rightarrow> exc + token_data" where
  "verify_refresh_token st now tok =
     (let body = (case jwt_decode tok (BETTER_AUTH_SECRET st) now of
                    Inl e \<Rightarrow> Inl e
                  | Inr payload \<Rightarrow>
                      if c_type payload \<noteq> Some ''refresh''
                      then Inl (HTTPException 401 ''Invalid token type'' bearer)
                      else if c_sub payload = None \<or> c_email payload = None
                      then Inl (HTTPException 401 ''Could not validate credentials'' bearer)
                      else Inr \<lparr>td_user_id = the (c_sub payload),
                                td_email = the (c_email payload)\<rparr>)
      in case body of
           Inl e \<Rightarrow> if e = JoseJWTError
                    then Inl (HTTPException 401 ''Could not validate refresh token'' bearer)
                    else Inl e
         | Inr token_data \<Rightarrow> Inr token_data)"

definition refresh_access_token :: "settings \<Rightarrow> datetime \<Rightarrow> token \<Rightarrow> exc + token" where
  "refresh_access_token st now refresh_token =
     (case verify_refresh_token st now refresh_token of
        Inl e \<Rightarrow> Inl e
      | Inr token_data \<Rightarrow>
          Inr (create_access_token st now
                 \<lparr>c_sub = Some (td_user_id token_data), c_email = Some (td_email token_data),
                  c_exp = None, c_type = None\<rparr> None))"

text \<open>The claims \<open>{"sub": u, "email": e}\<close> the services pass to the issuer.\<close>

definition token_claims :: "string \<Rightarrow> string \<Rightarrow> claims" where
  "token_claims u e = \<lparr>c_sub = Some u, c_email = Some e, c_exp = None, c_type = None\<rparr>"

section \<open>\<open>src/utils/password.py\<close>\<close>

fun startswith :: "string \<Rightarrow> string \<Rightarrow> bool" where
  "startswith s [] = True"
| "startswith [] (c # p) = False"
| "startswith (x # s) (c # p) = (x = c \<and> startswith s p)"

text \<open>
  \<open>pwd_context = CryptContext(schemes=["bcrypt"], deprecated="auto")\<close>. passlib
  identifies a stored hash as bcrypt by its prefix, one of
  \<open>$2$\<close>, \<open>$2a$\<close>, \<open>$2x$\<close>, \<open>$2y$\<close>, \<open>$2b$\<close>.
\<close>

definition bcrypt_identify :: "string \<Rightarrow> bool" where
  "bcrypt_identify h =
     (startswith h ''$2$'' \<or> startswith h ''$2a$'' \<or> startswith h ''$2x$''
      \<or> startswith h ''$2y$'' \<or> startswith h ''$2b$'')"

text \<open>
  \<open>pwd_context.verify(secret, hash)\<close>: a hash that no configured scheme identifies raises
  \<open>UnknownHashError\<close> (``hash could not be identified''); an identified hash goes to the
  bcrypt handler, which is the parameter \<open>bcrypt_verify\<close> (it parses the hash, raising on a
  malformed body, and compares the digest).
\<close>

definition pwd_context_verify ::
  "(string \<Rightarrow> string \<Rightarrow> exc + bool) \<Rightarrow> string \<Rightarrow> string \<Rightarrow> exc + bool" where
  "pwd_context_verify bcrypt_verify secret hash =
     (if bcrypt_identify hash then bcrypt_verify secret hash else Inl UnknownHashError)"

definition verify_password ::
  "(string \<Rightarrow> string \<Rightarrow> exc + bool) \<Rightarrow> string \<Rightarrow> string \<Rightarrow> exc + bool" where
  "verify_password bcrypt_verify plain_password hashed_password =
     pwd_context_verify bcrypt_verify plain_password hashed_password"

text \<open>
  \<open>is_hash_valid\<close> calls \<open>pwd_context.identify_hash\<close>. A \<open>CryptContext\<close> has no
  method of that name (its method is \<open>identify\<close>), so the call raises on every input.
\<close>

definition is_hash_valid :: "string \<Rightarrow> exc + bool" where
  "is_hash_valid hashed_password = Inl AttributeError"

section \<open>\<open>src/utils/validation.py\<close>: the e-mail pattern\<close>

text \<open>
  Regular expressions over character classes, matched with derivatives. \<open>Cls cs\<close> is one
  character of the list \<open>cs\<close>.
\<close>

datatype rx = Nul | Eps | Cls "char list" | Seq rx rx | Alt rx rx | Star rx

primrec nullable :: "rx \<Rightarrow> bool" where
  "nullable Nul = False"
| "nullable Eps = True"
| "nullable (Cls cs) = False"
| "nullable (Seq r s) = (nullable r \<and> nullable s)"
| "nullable (Alt r s) = (nullable r \<or> nullable s)"
| "nullable (Star r) = True"

primrec deriv :: "char \<Rightarrow> rx \<Rightarrow> rx" where
  "deriv c Nul = Nul"
| "deriv c Eps = Nul"
| "deriv c (Cls cs) = (if c \<in> set cs then Eps else Nul)"
| "deriv c (Seq r s) =
     (if nullable r then Alt (Seq (deriv c r) s) (deriv c s) else Seq (deriv c r) s)"
| "deriv c (Alt r s) = Alt (deriv c r) (deriv c s)"
| "deriv c (Star r) = Seq (deriv c r) (Star r)"

text \<open>The whole string matches \<open>r\<close>.\<close>

definition rx_fullmatch :: "rx \<Rightarrow> string \<Rightarrow> bool" where
  "rx_fullmatch r s = nullable (foldl (\<lambda>q c. deriv c q) r s)"

definition rx_plus :: "rx \<Rightarrow> rx" where
  "rx_plus r = Seq r (Star r)"

definition lower :: string where "lower = ''abcdefghijklmnopqrstuvwxyz''"
definition upper :: string where "upper = ''ABCDEFGHIJKLMNOPQRSTUVWXYZ''"
definition digits :: string where "digits = ''0123456789''"

text \<open>
  \<open>^[a-zA-Z0-9._%+-]+@[a-zA-Z0-9.-]+\.[a-zA-Z]{2,}$\<close> under \<open>re.match\<close>: the pattern
  is anchored at both ends, and Python's \<open>$\<close> also matches just before a newline that
  ends the string.
\<close>

definition email_pattern :: rx where
  "email_pattern =
     Seq (rx_plus (Cls (lower @ upper @ digits @ ''._%+-'')))
    (Seq (Cls ''@'')
    (Seq (rx_plus (Cls (lower @ upper @ digits @ ''.-'')))
    (Seq (Cls ''.'')
    (Seq (Cls (lower @ upper)) (Seq (Cls (lower @ upper)) (Star (Cls (lower @ upper))))))))"

definition validate_email_format :: "string \<Rightarrow> bool" where
  "validate_email_format email =
     rx_fullmatch (Seq email_pattern (Alt Eps (Cls [CHR 0x0A]))) email"

section \<open>Users: \<open>src/models/user.py\<close>, \<open>src/database/service.py\<close>, \<open>src/services/user_service.py\<close>\<close>

text \<open>
  A row of the user table (the timestamps, which no modelled function reads, are left
  out). Ids are UUIDs, kept as strings as the token carries them (\<open>str(user.id)\<close>).
\<close>

record user =
  u_id :: string
  u_email :: string
  hashed_password :: string
  is_active :: bool

text \<open>The user table is the list of its rows; \<open>.first()\<close> of a query is \<open>find\<close>.\<close>

definition get_user_by_id :: "user list \<Rightarrow> string \<Rightarrow> user option" where
  "get_user_by_id db user_id = find (\<lambda>u. u_id u = user_id) db"

definition get_user_by_email :: "user list \<Rightarrow> string \<Rightarrow> user option" where
  "get_user_by_email db email = find (\<lambda>u. u_email u = email) db"

record login_request =
  l_email :: string
  l_password :: string

record auth_response =
  a_success :: bool
  a_token :: token
  a_user :: "string \<times> string"

text \<open>
  \<open>UserService.authenticate_user\<close>: \<open>Inr None\<close> is the returned \<open>None\<close>. The test
  \<open>not user or not verify_password(...)\<close> does not call \<open>verify_password\<close> when there is no
  user; an exception of \<open>verify_password\<close> leaves the function.
\<close>

definition authenticate_user ::
  "(string \<Rightarrow> string \<Rightarrow> exc + bool) \<Rightarrow> settings \<Rightarrow> datetime \<Rightarrow> user list \<Rightarrow> login_request
     \<Rightarrow> exc + auth_response option" where
  "authenticate_user bcrypt_verify st now db login_data =
     (case get_user_by_email db (l_email login_data) of
        None \<Rightarrow> Inr None
      | Some user \<Rightarrow>
          (case verify_password bcrypt_verify (l_password login_data) (hashed_password user) of
             Inl e \<Rightarrow> Inl e
           | Inr matches \<Rightarrow>
               if \<not> matches then Inr None
               else if \<not> is_active user then Inr None
               else Inr (Some \<lparr>a_success = True,
                                a_token = create_access_token st now
                                            (token_claims (u_id user) (u_email user)) None,
                                a_user = (u_id user, u_email user)\<rparr>)))"

text \<open>\<open>src/api/auth.py\<close>, \<open>login_user\<close>.\<close>

definition login_user ::
  "(string \<Rightarrow> string \<Rightarrow> exc + bool) \<Rightarrow> settings \<Rightarrow> datetime \<Rightarrow> user list \<Rightarrow> login_request
     \<Rightarrow> exc + auth_response" where
  "login_user bcrypt_verify st now db login_data =
     (if \<not> validate_email_format (l_email login_data)
      then Inl (HTTPException 400 ''Invalid email format'' [])
      else (case authenticate_user bcrypt_verify st now db login_data of
              Inl e \<Rightarrow> Inl e
            | Inr None \<Rightarrow> Inl (HTTPException 401 ''Incorrect email or password'' bearer)
            | Inr (Some result) \<Rightarrow> Inr result))"

section \<open>The revocation store: \<open>src/services/token_service.py\<close>\<close>

text \<open>
  The redis server behind \<open>redis_client\<close>. A key is one of the two formatted strings
  \<open>f"blacklisted_token:{token}"\<close> and \<open>f"user_logout:{user_id}"\<close>; \<open>r_data\<close> maps a key
  to the instant at which it expires. \<open>r_available\<close> is false when the server cannot be
  reached, and then every command raises.
\<close>

datatype rkey = blacklisted_token_key token | user_logout_key string

record redis =
  r_available :: bool
  r_data :: "rkey \<rightharpoonup> datetime"

text \<open>
  \<open>setex(name, time, value)\<close> with a \<open>timedelta\<close>: the client sends
  \<open>int(time.total_seconds())\<close>, and the server refuses an expire time that is not positive.
\<close>

definition redis_setex :: "redis \<Rightarrow> datetime \<Rightarrow> rkey \<Rightarrow> timedelta \<Rightarrow> exc + redis" where
  "redis_setex r now name time =
     (if r_available r \<and> 0 < time div 1000000
      then Inr (r\<lparr>r_data := (r_data r)(name \<mapsto> now + (time div 1000000) * 1000000)\<rparr>)
      else Inl RedisError)"

text \<open>\<open>exists(name)\<close>: the number of the given keys that exist (and have not expired).\<close>

definition redis_exists :: "redis \<Rightarrow> datetime \<Rightarrow> rkey \<Rightarrow> exc + int" where
  "redis_exists r now name =
     (if r_available r
      then Inr (case r_data r name of
                  None \<Rightarrow> 0
                | Some expires \<Rightarrow> if now < expires then 1 else 0)
      else Inl RedisError)"

text \<open>
  \<open>TokenService\<close>: \<open>redis_client\<close> is \<open>None\<close> in the in-memory mode, where
  \<open>blacklisted_tokens\<close> is the set \<open>_blacklisted_tokens\<close>.
\<close>

record token_service =
  redis_client :: "redis option"
  blacklisted_tokens :: "token set"

text \<open>\<open>__init__\<close>: \<open>if settings.REDIS_URL:\<close> is false for \<open>None\<close> and for the empty string.\<close>

definition TokenService_init :: "settings \<Rightarrow> redis \<Rightarrow> token_service" where
  "TokenService_init st server =
     (if REDIS_URL st \<noteq> None \<and> REDIS_URL st \<noteq> Some []
      then \<lparr>redis_client = Some server, blacklisted_tokens = {}\<rparr>
      else \<lparr>redis_client = None, blacklisted_tokens = {}\<rparr>)"

text \<open>
  Each method is \<open>try: ... except Exception: return False\<close>: the body is evaluated to
  \<open>exc + _\<close> and the handler turns every exception into the value \<open>False\<close>, leaving the
  service as it was. The methods return the new state of the service with their result.
\<close>

definition blacklist_token ::
  "token_service \<Rightarrow> datetime \<Rightarrow> token \<Rightarrow> timedelta option \<Rightarrow> exc + (bool \<times> token_service)" where
  "blacklist_token svc now tok expiration =
     (let expiration' = (if expiration = None \<or> expiration = Some 0 then timedelta_hours 24
                         else the expiration);
          body = (case redis_client svc of
                    Some r \<Rightarrow>
                      (case redis_setex r now (blacklisted_token_key tok) expiration' of
                         Inl e \<Rightarrow> Inl e
                       | Inr r' \<Rightarrow> Inr (True, svc\<lparr>redis_client := Some r'\<rparr>))
                  | None \<Rightarrow>
                      Inr (True, svc\<lparr>blacklisted_tokens := insert tok (blacklisted_tokens svc)\<rparr>))
      in case body of
           Inl e \<Rightarrow> Inr (False, svc)
         | Inr res \<Rightarrow> Inr res)"

definition is_token_blacklisted :: "token_service \<Rightarrow> datetime \<Rightarrow> token \<Rightarrow> bool" where
  "is_token_blacklisted svc now tok =
     (let body = (case redis_client svc of
                    Some r \<Rightarrow>
                      (case redis_exists r now (blacklisted_token_key tok) of
                         Inl e \<Rightarrow> Inl e
                       | Inr n \<Rightarrow> Inr (n > 0))
                  | None \<Rightarrow> Inr (tok \<in> blacklisted_tokens svc))
      in case body of
           Inl (e :: exc) \<Rightarrow> False
         | Inr res \<Rightarrow> res)"

definition blacklist_user_tokens ::
  "token_service \<Rightarrow> datetime \<Rightarrow> string \<Rightarrow> timedelta option \<Rightarrow> bool \<times> token_service" where
  "blacklist_user_tokens svc now user_id expiration =
     (let body = (case redis_client svc of
                    Some r \<Rightarrow>
                      (case redis_setex r now (user_logout_key user_id)
                              (if expiration = None \<or> expiration = Some 0
                               then timedelta_hours 24 else the expiration) of
                         Inl e \<Rightarrow> Inl e
                       | Inr r' \<Rightarrow> Inr (True, svc\<lparr>redis_client := Some r'\<rparr>))
                  | None \<Rightarrow> Inr (True, svc))
      in case body of
           Inl (e :: exc) \<Rightarrow> (False, svc)
         | Inr res \<Rightarrow> res)"

definition is_user_logged_out :: "token_service \<Rightarrow> datetime \<Rightarrow> string \<Rightarrow> bool" where
  "is_user_logged_out svc now user_id =
     (let body = (case redis_client svc of
                    Some r \<Rightarrow>
                      (case redis_exists r now (user_logout_key user_id) of
                         Inl e \<Rightarrow> Inl e
                       | Inr n \<Rightarrow> Inr (n > 0))
                  | None \<Rightarrow> Inr False)
      in case body of
           Inl (e :: exc) \<Rightarrow> False
         | Inr res \<Rightarrow> res)"

section \<open>The access guard and logout: \<open>src/api/deps.py\<close>, \<open>src/api/auth.py\<close>\<close>

text \<open>
  \<open>get_current_user\<close>, given the bearer token of the request. The handler
  \<open>except Exception\<close> replaces every exception of the body, the three
  \<open>HTTPException\<close>s raised inside it included, by one 401. The function reads the
  settings, the clock and the user table; it has no access to the token service.
\<close>

definition get_current_user :: "settings \<Rightarrow> datetime \<Rightarrow> user list \<Rightarrow> token \<Rightarrow> exc + user" where
  "get_current_user st now db tok =
     (let body = (case verify_access_token st now tok of
                    Inl e \<Rightarrow> Inl e
                  | Inr token_data \<Rightarrow>
                      (case get_user_by_id db (td_user_id token_data) of
                         None \<Rightarrow> Inl (HTTPException 401 ''User not found'' bearer)
                       | Some user \<Rightarrow>
                           if \<not> is_active user
                           then Inl (HTTPException 401 ''Inactive user'' bearer)
                           else Inr user))
      in case body of
           Inl e \<Rightarrow> Inl (HTTPException 401 ''Could not validate credentials'' bearer)
         | Inr user \<Rightarrow> Inr user)"

record logout_response =
  lo_message :: string
  lo_user_id :: string

text \<open>
  What a handler leaves behind: its response, the token service after it, and the records
  it wrote to the application log.
\<close>

record 'a outcome =
  response :: "exc + 'a"
  service :: token_service
  log_records :: "string list"

text \<open>
  \<open>logout_user\<close> for an authenticated user: \<open>try: token_service.blacklist_token(...)\<close>
  \<open>except Exception: pass\<close>, then the success message. Neither the handler nor
  \<open>blacklist_token\<close> calls a logger.
\<close>

definition logout_user :: "token_service \<Rightarrow> datetime \<Rightarrow> token \<Rightarrow> user \<Rightarrow> logout_response outcome" where
  "logout_user svc now credentials current_user =
     (let svc' = (case blacklist_token svc now credentials None of
                    Inl e \<Rightarrow> svc
                  | Inr res \<Rightarrow> snd res)
      in \<lparr>response = Inr \<lparr>lo_message = ''Successfully logged out'',
                            lo_user_id = u_id current_user\<rparr>,
          service = svc',
          log_records = []\<rparr>)"

text \<open>The route \<open>POST /auth/logout\<close>: the guard runs first, as a dependency.\<close>

definition logout_route ::
  "settings \<Rightarrow> datetime \<Rightarrow> user list \<Rightarrow> token_service \<Rightarrow> token \<Rightarrow> logout_response outcome" where
  "logout_route st now db svc tok =
     (case get_current_user st now db tok of
        Inl e \<Rightarrow> \<lparr>response = Inl e, service = svc, log_records = []\<rparr>
      | Inr current_user \<Rightarrow> logout_user svc now tok current_user)"

section \<open>Tasks: \<open>src/models/task.py\<close>, \<open>src/services/task_service.py\<close>, \<open>src/api/tasks.py\<close>\<close>

datatype task_priority = LOW | MEDIUM | HIGH

record task =
  t_id :: string
  t_user_id :: string
  t_title :: string
  t_description :: "string option"
  t_due_date :: "datetime option"
  t_priority :: task_priority
  t_completed :: bool
  t_created_at :: datetime
  t_updated_at :: datetime

text \<open>
  \<open>TaskUpdate\<close>: every field is optional. For each field, \<open>None\<close> is a field the request
  did not set (\<open>dict(exclude_unset=True)\<close> leaves it out), \<open>Some None\<close> a field sent as
  \<open>null\<close>, \<open>Some (Some v)\<close> a value.
\<close>

record task_update =
  up_title :: "string option option"
  up_description :: "string option option"
  up_due_date :: "datetime option option"
  up_priority :: "task_priority option option"
  up_completed :: "bool option option"

text \<open>The task table is the list of its rows.\<close>

definition get_task_by_id :: "task list \<Rightarrow> string \<Rightarrow> string \<Rightarrow> task option" where
  "get_task_by_id db task_id user_id =
     find (\<lambda>t. t_id t = task_id \<and> t_user_id t = user_id) db"

text \<open>
  The loop \<open>for field, value in update_data.items(): setattr(task, field, value)\<close>.
  The columns \<open>title\<close>, \<open>priority\<close> and \<open>completed\<close> are NOT NULL, so a \<open>null\<close> for one
  of them makes the commit fail; \<open>description\<close> and \<open>due_date\<close> accept it.
\<close>

definition null_in_required :: "task_update \<Rightarrow> bool" where
  "null_in_required u =
     (up_title u = Some None \<or> up_priority u = Some None \<or> up_completed u = Some None)"

definition apply_update :: "task_update \<Rightarrow> task \<Rightarrow> task" where
  "apply_update u t =
     t\<lparr>t_title := (case up_title u of Some (Some v) \<Rightarrow> v | _ \<Rightarrow> t_title t),
       t_description := (case up_description u of Some v \<Rightarrow> v | None \<Rightarrow> t_description t),
       t_due_date := (case up_due_date u of Some v \<Rightarrow> v | None \<Rightarrow> t_due_date t),
       t_priority := (case up_priority u of Some (Some v) \<Rightarrow> v | _ \<Rightarrow> t_priority t),
       t_completed := (case up_completed u of Some (Some v) \<Rightarrow> v | _ \<Rightarrow> t_completed t)\<rparr>"

text \<open>Writing a changed row back: the row with the same primary key is replaced.\<close>

definition store_task :: "task list \<Rightarrow> task \<Rightarrow> task list" where
  "store_task db t = map (\<lambda>x. if t_id x = t_id t then t else x) db"

text \<open>
  \<open>TaskService.update_task\<close>: \<open>Inr (None, db)\<close> is the returned \<open>None\<close>; the table is
  returned with the result.
\<close>

definition TaskService_update_task ::
  "task list \<Rightarrow> datetime \<Rightarrow> string \<Rightarrow> task_update \<Rightarrow> string \<Rightarrow> exc + (task option \<times> task list)" where
  "TaskService_update_task db now task_id task_update user_id =
     (case get_task_by_id db task_id user_id of
        None \<Rightarrow> Inr (None, db)
      | Some t \<Rightarrow>
          if null_in_required task_update then Inl IntegrityError
          else (let t' = (apply_update task_update t)\<lparr>t_updated_at := now\<rparr>
                in Inr (Some t', store_task db t')))"

definition TaskService_delete_task :: "task list \<Rightarrow> string \<Rightarrow> string \<Rightarrow> bool \<times> task list" where
  "TaskService_delete_task db task_id user_id =
     (case get_task_by_id db task_id user_id of
        None \<Rightarrow> (False, db)
      | Some t \<Rightarrow> (True, filter (\<lambda>x. t_id x \<noteq> t_id t) db))"

text \<open>The three routes, for the principal \<open>current_user\<close> the guard returned.\<close>

definition not_found :: exc where
  "not_found = HTTPException 404 ''Task not found or access denied'' []"

definition get_task :: "task list \<Rightarrow> string \<Rightarrow> user \<Rightarrow> exc + task" where
  "get_task db task_id current_user =
     (case get_task_by_id db task_id (u_id current_user) of
        None \<Rightarrow> Inl not_found
      | Some t \<Rightarrow> Inr t)"

definition update_task ::
  "task list \<Rightarrow> datetime \<Rightarrow> string \<Rightarrow> task_update \<Rightarrow> user \<Rightarrow> (exc + task) \<times> task list" where
  "update_task db now task_id task_update current_user =
     (case TaskService_update_task db now task_id task_update (u_id current_user) of
        Inl e \<Rightarrow> (Inl e, db)
      | Inr (None, db') \<Rightarrow> (Inl not_found, db')
      | Inr (Some t, db') \<Rightarrow> (Inr t, db'))"

definition delete_task :: "task list \<Rightarrow> string \<Rightarrow> user \<Rightarrow> (exc + string) \<times> task list" where
  "delete_task db task_id current_user =
     (case TaskService_delete_task db task_id (u_id current_user) of
        (False, db') \<Rightarrow> (Inl not_found, db')
      | (True, db') \<Rightarrow> (Inr ''Task deleted successfully'', db'))"

section \<open>Concrete inputs\<close>

text \<open>Values for the concrete runs below.\<close>

definition st0 :: settings where
  "st0 = \<lparr>BETTER_AUTH_SECRET = ''0123456789abcdef0123456789abcdef'',
          JWT_EXPIRATION_HOURS = 24, REDIS_URL = None\<rparr>"

definition st_redis :: settings where
  "st_redis = st0\<lparr>REDIS_URL := Some ''redis://localhost:6379/0''\<rparr>"

definition server0 :: redis where
  "server0 = \<lparr>r_available = True, r_data = Map.empty\<rparr>"

text \<open>
  A bcrypt handler for the concrete runs: it raises on a hash that is not 60 characters
  long and accepts one password for one hash.
\<close>

definition alice_hash :: string where
  "alice_hash = ''$2b$12$abcdefghijklmnopqrstuuABCDEFGHIJKLMNOPQRSTUVWXYZ01234''"


definition alice :: user where
  "alice = \<lparr>u_id = ''7d444840-9dc0-11d1-b245-5ffdce74fad2'', u_email = ''alice@example.com'',
            hashed_password = alice_hash, is_active = True\<rparr>"

definition bob :: user where
  "bob = \<lparr>u_id = ''e902893a-9d22-3c7e-a7b8-d6e313b71d9f'', u_email = ''bob@example.com'',
          hashed_password = alice_hash, is_active = True\<rparr>"


text \<open>A user whose stored hash is not a bcrypt hash.\<close>

definition erin :: user where
  "erin = \<lparr>u_id = ''3b241101-e2bb-4255-8caf-4136c566a962'', u_email = ''erin@example.com'',
           hashed_password = ''not-a-bcrypt-hash'', is_active = True\<rparr>"

definition alice_task :: task where
  "alice_task = \<lparr>t_id = ''16fd2706-8baf-433b-82eb-8c7fada847da'', t_user_id = u_id alice,
                 t_title = ''Buy milk'', t_description = None, t_due_date = None,
                 t_priority = MEDIUM, t_completed = False,
                 t_created_at = 0, t_updated_at = 0\<rparr>"

definition no_update :: task_update where
  "no_update = \<lparr>up_title = None, up_description = None, up_due_date = None,
                up_priority = None, up_completed = None\<rparr>"

text \<open>
  The access token Alice gets at instant 0, and the revocation store (redis mode) after
  that token was blacklisted at the first second for the default 24 hours.
\<close>

definition alice_token :: token where
  "alice_token = create_access_token st0 0 (token_claims (u_id alice) (u_email alice)) None"

definition server1 :: redis where
  "server1 = \<lparr>r_available = True,
              r_data = [blacklisted_token_key alice_token \<mapsto> 86401000000]\<rparr>"

definition server2 :: redis where
  "server2 = \<lparr>r_available = True,
              r_data = [blacklisted_token_key alice_token \<mapsto> 86401000000,
                        user_logout_key (u_id alice) \<mapsto> 86401000000]\<rparr>"

section \<open>Facts about the token functions\<close>

lemma jwt_decode_signed:
  "jwt_decode (JWT c k) key now =
     (if k \<noteq> key then Inl (PyJWTError InvalidSignatureError)
      else if c_exp c = None then Inr c
      else if the (c_exp c) * 1000000 \<le> now then Inl (PyJWTError ExpiredSignatureError)
      else Inr c)"
  by (simp add: jwt_decode_def split: option.splits)

lemma jwt_decode_never_jose: "jwt_decode tok key now \<noteq> Inl JoseJWTError"
  by (cases tok) (simp_all add: jwt_decode_def split: option.splits)

lemma floor_seconds_le: "(t div 1000000) * 1000000 \<le> (t::int)"
proof -
  have "t = t div 1000000 * 1000000 + t mod 1000000" by simp
  moreover have "0 \<le> t mod 1000000" by simp
  ultimately show ?thesis by linarith
qed

lemma floor_seconds_gt: "(t::int) < (t div 1000000) * 1000000 + 1000000"
proof -
  have "t = t div 1000000 * 1000000 + t mod 1000000" by simp
  moreover have "t mod 1000000 < 1000000" by simp
  ultimately show ?thesis by linarith
qed

lemma verify_token_signed:
  "verify_token st now (JWT c k) ce =
     (if k \<noteq> BETTER_AUTH_SECRET st then Inl (PyJWTError InvalidSignatureError)
      else if c_exp c \<noteq> None \<and> the (c_exp c) * 1000000 \<le> now
      then Inl (PyJWTError ExpiredSignatureError)
      else if c_sub c = None \<or> c_email c = None
      then Inl (case ce of None \<Rightarrow> HTTPException 401 ''Could not validate credentials'' bearer
                | Some e \<Rightarrow> e)
      else Inr \<lparr>td_user_id = the (c_sub c), td_email = the (c_email c)\<rparr>)"
  by (auto simp add: verify_token_def jwt_decode_signed Let_def split: option.splits)

lemma verify_refresh_token_signed:
  "verify_refresh_token st now (JWT c k) =
     (if k \<noteq> BETTER_AUTH_SECRET st then Inl (PyJWTError InvalidSignatureError)
      else if c_exp c \<noteq> None \<and> the (c_exp c) * 1000000 \<le> now
      then Inl (PyJWTError ExpiredSignatureError)
      else if c_type c \<noteq> Some ''refresh''
      then Inl (HTTPException 401 ''Invalid token type'' bearer)
      else if c_sub c = None \<or> c_email c = None
      then Inl (HTTPException 401 ''Could not validate credentials'' bearer)
      else Inr \<lparr>td_user_id = the (c_sub c), td_email = the (c_email c)\<rparr>)"
  by (auto simp add: verify_refresh_token_def jwt_decode_signed Let_def)

lemma create_access_token_signed:
  "create_access_token st now data d =
     JWT (data\<lparr>c_exp := Some ((if d \<noteq> None \<and> d \<noteq> Some 0 then now + the d
                                 else now + timedelta_hours (JWT_EXPIRATION_HOURS st)) div 1000000)\<rparr>)
         (BETTER_AUTH_SECRET st)"
  by (simp add: create_access_token_def jwt_encode_def Let_def)

lemma create_refresh_token_signed:
  "create_refresh_token st now data d =
     JWT (data\<lparr>c_type := Some ''refresh'',
               c_exp := Some ((if d \<noteq> None \<and> d \<noteq> Some 0 then now + the d
                                 else now + timedelta_days 7) div 1000000)\<rparr>)
         (BETTER_AUTH_SECRET st)"
  by (simp add: create_refresh_token_def jwt_encode_def Let_def)

text \<open>
  Every issued access token is signed with the configured secret, carries the subject and
  e-mail it was given and an \<open>exp\<close> claim: the instant of issue plus the lifetime,
  rounded down to the second.
\<close>

lemma create_access_token_expiry:
  "\<exists>c x. create_access_token st now data d = JWT c (BETTER_AUTH_SECRET st)
         \<and> c_sub c = c_sub data \<and> c_email c = c_email data \<and> c_exp c = Some x
         \<and> x * 1000000
             \<le> now + (if d \<noteq> None \<and> d \<noteq> Some 0 then the d
                        else timedelta_hours (JWT_EXPIRATION_HOURS st))
         \<and> now + (if d \<noteq> None \<and> d \<noteq> Some 0 then the d
                   else timedelta_hours (JWT_EXPIRATION_HOURS st))
             < x * 1000000 + 1000000"
proof -
  let ?t = "if d \<noteq> None \<and> d \<noteq> Some 0 then now + the d
            else now + timedelta_hours (JWT_EXPIRATION_HOURS st)"
  have eq: "now + (if d \<noteq> None \<and> d \<noteq> Some 0 then the d
                   else timedelta_hours (JWT_EXPIRATION_HOURS st)) = ?t"
    by simp
  have "create_access_token st now data d
          = JWT (data\<lparr>c_exp := Some (?t div 1000000)\<rparr>) (BETTER_AUTH_SECRET st)"
    by (rule create_access_token_signed)
  moreover have "?t div 1000000 * 1000000 \<le> ?t" by (rule floor_seconds_le)
  moreover have "?t < ?t div 1000000 * 1000000 + 1000000" by (rule floor_seconds_gt)
  ultimately show ?thesis
    unfolding eq by (intro exI [of _ "data\<lparr>c_exp := Some (?t div 1000000)\<rparr>"]
        exI [of _ "?t div 1000000"]) simp
qed

section \<open>Type discrimination of tokens\<close>

text \<open>
  Claim C1 says that access-token verification rejects every refresh token and that
  refresh-token verification rejects every token without \<open>type = "refresh"\<close>.
  \<open>verify_access_token\<close> is \<open>verify_token\<close> and never reads \<open>type\<close>: the refresh token
  issued for any user, presented as an access token at the instant of its issue, is
  accepted and yields that user's claims.
\<close>

theorem refresh_token_passes_access_verification:
  "verify_access_token st now (create_refresh_token st now (token_claims u e) None)
     = Inr \<lparr>td_user_id = u, td_email = e\<rparr>"
proof -
  let ?t = "now + timedelta_days 7"
  have "(now + 1000000) div 1000000 \<le> ?t div 1000000"
    by (rule zdiv_mono1) (simp_all add: timedelta_days_def)
  then have "now div 1000000 + 1 \<le> ?t div 1000000" by simp
  then have "(now div 1000000 + 1) * 1000000 \<le> ?t div 1000000 * 1000000" by simp
  moreover have "now < (now div 1000000) * 1000000 + 1000000" by (rule floor_seconds_gt)
  ultimately have live: "\<not> ?t div 1000000 * 1000000 \<le> now" by (simp add: algebra_simps)
  show ?thesis
    using live
    by (simp add: verify_access_token_def verify_token_signed create_refresh_token_signed
        token_claims_def)
qed

text \<open>The other direction holds: refresh verification rejects what lacks the marker.\<close>

lemma verify_refresh_token_rejects_untyped:
  "c_type c \<noteq> Some ''refresh'' \<Longrightarrow> isl (verify_refresh_token st now (JWT c k))"
  by (simp add: verify_refresh_token_signed)

lemma verify_refresh_token_rejects_garbage:
  "isl (verify_refresh_token st now (NotAJWT s))"
  by (simp add: verify_refresh_token_def jwt_decode_def)


section \<open>Round trip and expiry\<close>

text \<open>
  Claim C3 (round trip): the access token issued for the user id \<open>u\<close> and the e-mail
  \<open>e\<close> is a signed token with an \<open>exp\<close> claim, and at every instant before that expiry
  \<open>verify_token\<close> and \<open>verify_access_token\<close> succeed on it with subject \<open>u\<close> and
  e-mail \<open>e\<close>.
\<close>

theorem access_token_round_trip:
  assumes "create_access_token st now (token_claims u e) expires_delta = JWT c k"
    and "c_exp c = Some x"
    and "now' < x * 1000000"
  shows "verify_token st now' (JWT c k) None = Inr \<lparr>td_user_id = u, td_email = e\<rparr>
         \<and> verify_access_token st now' (JWT c k) = Inr \<lparr>td_user_id = u, td_email = e\<rparr>"
proof -
  from assms(1) have k: "k = BETTER_AUTH_SECRET st"
    and c: "c_sub c = Some u" "c_email c = Some e"
    by (auto simp add: create_access_token_signed token_claims_def)
  from assms(2,3) have "\<not> the (c_exp c) * 1000000 \<le> now'" by simp
  with k c show ?thesis
    by (simp add: verify_access_token_def verify_token_signed)
qed

theorem access_token_round_trip_witness:
  "create_access_token st0 0 (token_claims ''u1'' ''alice@example.com'') None
     = JWT \<lparr>c_sub = Some ''u1'', c_email = Some ''alice@example.com'', c_exp = Some 86400,
            c_type = None\<rparr> (BETTER_AUTH_SECRET st0)
   \<and> (86399999999 :: int) < 86400 * 1000000
   \<and> verify_access_token st0 86399999999
        (create_access_token st0 0 (token_claims ''u1'' ''alice@example.com'') None)
       = Inr \<lparr>td_user_id = ''u1'', td_email = ''alice@example.com''\<rparr>"
proof -
  have tok: "create_access_token st0 0 (token_claims ''u1'' ''alice@example.com'') None
     = JWT \<lparr>c_sub = Some ''u1'', c_email = Some ''alice@example.com'', c_exp = Some 86400,
            c_type = None\<rparr> (BETTER_AUTH_SECRET st0)"
    by (simp add: create_access_token_signed token_claims_def st0_def timedelta_hours_def)
  have ex: "c_exp \<lparr>c_sub = Some ''u1'', c_email = Some ''alice@example.com'',
                  c_exp = Some 86400, c_type = None\<rparr> = Some 86400"
    by simp
  have lt: "(86399999999 :: int) < 86400 * 1000000" by simp
  show ?thesis
    using access_token_round_trip [OF tok ex lt] tok lt by simp
qed

text \<open>
  Claim C4 (expiry): a signed token whose \<open>exp\<close> is not after the clock of the verifier
  fails every verification; a token with an \<open>exp\<close> claim that verifies has \<open>exp\<close>
  strictly after the clock (there is no leeway); and an access token issued with a negative
  lifetime fails at every instant from its issue on.
\<close>

theorem expired_token_rejected:
  "(c_exp c = Some x \<and> x * 1000000 \<le> now
      \<longrightarrow> isl (verify_token st now (JWT c k) ce)
          \<and> isl (verify_access_token st now (JWT c k))
          \<and> isl (verify_refresh_token st now (JWT c k)))
   \<and> (c_exp c' = Some x' \<and> verify_token st now' (JWT c' k') ce = Inr td
      \<longrightarrow> now' < x' * 1000000)
   \<and> (ttl < 0 \<and> issued \<le> now''
      \<longrightarrow> isl (verify_token st now'' (create_access_token st issued data (Some ttl)) ce))"
proof (intro conjI impI)
  assume a: "c_exp c = Some x \<and> x * 1000000 \<le> now"
  then show "isl (verify_token st now (JWT c k) ce)"
    by (simp add: verify_token_signed)
  from a show "isl (verify_access_token st now (JWT c k))"
    by (simp add: verify_access_token_def verify_token_signed)
  from a show "isl (verify_refresh_token st now (JWT c k))"
    by (simp add: verify_refresh_token_signed)
next
  assume "c_exp c' = Some x' \<and> verify_token st now' (JWT c' k') ce = Inr td"
  then show "now' < x' * 1000000"
    by (auto simp add: verify_token_signed split: if_splits)
next
  assume a: "ttl < 0 \<and> issued \<le> now''"
  have "(issued + ttl) div 1000000 * 1000000 \<le> issued + ttl" by (rule floor_seconds_le)
  with a have "(issued + ttl) div 1000000 * 1000000 \<le> now''" by linarith
  with a show "isl (verify_token st now'' (create_access_token st issued data (Some ttl)) ce)"
    by (simp add: create_access_token_signed verify_token_signed)
qed

theorem expired_token_rejected_witness:
  "c_exp (token_claims ''u1'' ''a@x.com''\<lparr>c_exp := Some 100\<rparr>) = Some 100
   \<and> (100 :: int) * 1000000 \<le> 100000000
   \<and> isl (verify_token st0 100000000
            (JWT (token_claims ''u1'' ''a@x.com''\<lparr>c_exp := Some 100\<rparr>) (BETTER_AUTH_SECRET st0)) None)
   \<and> verify_token st0 99999999
        (JWT (token_claims ''u1'' ''a@x.com''\<lparr>c_exp := Some 100\<rparr>) (BETTER_AUTH_SECRET st0)) None
       = Inr \<lparr>td_user_id = ''u1'', td_email = ''a@x.com''\<rparr>
   \<and> (99999999 :: int) < 100 * 1000000
   \<and> timedelta_seconds (- 1) < 0 \<and> (5000000 :: int) \<le> 5000000
   \<and> isl (verify_token st0 5000000
            (create_access_token st0 5000000 (token_claims ''u1'' ''a@x.com'')
               (Some (timedelta_seconds (- 1)))) None)"
  using expired_token_rejected
    [of "token_claims ''u1'' ''a@x.com''\<lparr>c_exp := Some 100\<rparr>" 100 100000000 st0
        "BETTER_AUTH_SECRET st0" None
        "token_claims ''u1'' ''a@x.com''\<lparr>c_exp := Some 100\<rparr>" 100 99999999
        "BETTER_AUTH_SECRET st0" "\<lparr>td_user_id = ''u1'', td_email = ''a@x.com''\<rparr>"
        "timedelta_seconds (- 1)" 5000000 5000000 "token_claims ''u1'' ''a@x.com''"]
  by (simp add: verify_token_signed token_claims_def timedelta_seconds_def)

section \<open>Login failures\<close>

text \<open>
  \<open>login_user\<close> first checks the format of the e-mail and answers an address that fails
  it with a 400, before any lookup.
\<close>

lemma login_rejects_malformed_email:
  "\<not> validate_email_format (l_email req)
     \<Longrightarrow> login_user bcrypt_verify st now db req
           = Inl (HTTPException 400 ''Invalid email format'' [])"
  by (simp add: login_user_def)





section \<open>Ownership of tasks\<close>

lemma find_None_iff: "(find P xs = None) = (\<forall>x \<in> set xs. \<not> P x)"
  by (induction xs) auto

lemma find_Some_in: "find P xs = Some x \<Longrightarrow> x \<in> set xs \<and> P x"
  by (induction xs) (auto split: if_splits)

lemma get_task_by_id_None:
  "(get_task_by_id db task_id user_id = None)
     = (\<forall>t \<in> set db. \<not> (t_id t = task_id \<and> t_user_id t = user_id))"
  by (simp add: get_task_by_id_def find_None_iff)

lemma get_task_by_id_Some:
  "get_task_by_id db task_id user_id = Some t
     \<Longrightarrow> t \<in> set db \<and> t_id t = task_id \<and> t_user_id t = user_id"
  by (auto simp add: get_task_by_id_def dest: find_Some_in)

lemma apply_update_keeps_owner:
  "t_id (apply_update u t) = t_id t \<and> t_user_id (apply_update u t) = t_user_id t"
  by (simp add: apply_update_def)

text \<open>
  Claim C6 (ownership isolation): when no row with the requested id belongs to the
  principal (whether the id is unknown or the row belongs to someone else), the get, update
  and delete routes all answer with the same 404 and leave the table as it is; and a
  route that succeeds did so on a row with that id whose \<open>user_id\<close> is the principal's id.
\<close>

theorem ownership_isolation:
  "((\<forall>t \<in> set db. \<not> (t_id t = task_id \<and> t_user_id t = u_id current_user))
      \<longrightarrow> get_task db task_id current_user = Inl not_found
          \<and> update_task db now task_id upd current_user = (Inl not_found, db)
          \<and> delete_task db task_id current_user = (Inl not_found, db))
   \<and> (get_task db task_id current_user = Inr t
      \<longrightarrow> t \<in> set db \<and> t_id t = task_id \<and> t_user_id t = u_id current_user)
   \<and> (fst (update_task db now task_id upd current_user) = Inr t'
      \<longrightarrow> t_id t' = task_id \<and> t_user_id t' = u_id current_user
          \<and> (\<exists>t0 \<in> set db. t_id t0 = task_id \<and> t_user_id t0 = u_id current_user))
   \<and> (fst (delete_task db task_id current_user) = Inr msg
      \<longrightarrow> (\<exists>t0 \<in> set db. t_id t0 = task_id \<and> t_user_id t0 = u_id current_user))"
proof (intro conjI impI)
  assume "\<forall>t \<in> set db. \<not> (t_id t = task_id \<and> t_user_id t = u_id current_user)"
  then have none: "get_task_by_id db task_id (u_id current_user) = None"
    by (simp add: get_task_by_id_None)
  from none show "get_task db task_id current_user = Inl not_found"
    by (simp add: get_task_def)
  from none show "update_task db now task_id upd current_user = (Inl not_found, db)"
    by (simp add: update_task_def TaskService_update_task_def)
  from none show "delete_task db task_id current_user = (Inl not_found, db)"
    by (simp add: delete_task_def TaskService_delete_task_def)
next
  assume "get_task db task_id current_user = Inr t"
  then have "get_task_by_id db task_id (u_id current_user) = Some t"
    by (simp add: get_task_def split: option.splits)
  then have r: "t \<in> set db \<and> t_id t = task_id \<and> t_user_id t = u_id current_user"
    by (rule get_task_by_id_Some)
  from r show "t \<in> set db" by simp
  from r show "t_id t = task_id" by simp
  from r show "t_user_id t = u_id current_user" by simp
next
  assume a: "fst (update_task db now task_id upd current_user) = Inr t'"
  then obtain t0 where g: "get_task_by_id db task_id (u_id current_user) = Some t0"
    by (cases "get_task_by_id db task_id (u_id current_user)")
       (auto simp add: update_task_def TaskService_update_task_def)
  from g have r: "t0 \<in> set db \<and> t_id t0 = task_id \<and> t_user_id t0 = u_id current_user"
    by (rule get_task_by_id_Some)
  from a g have t': "t' = (apply_update upd t0)\<lparr>t_updated_at := now\<rparr>"
    by (auto simp add: update_task_def TaskService_update_task_def Let_def split: if_splits)
  from t' r show "t_id t' = task_id" by (simp add: apply_update_keeps_owner)
  from t' r show "t_user_id t' = u_id current_user" by (simp add: apply_update_keeps_owner)
  from r show "\<exists>t0 \<in> set db. t_id t0 = task_id \<and> t_user_id t0 = u_id current_user" by blast
next
  assume a: "fst (delete_task db task_id current_user) = Inr msg"
  then obtain t0 where g: "get_task_by_id db task_id (u_id current_user) = Some t0"
    by (cases "get_task_by_id db task_id (u_id current_user)")
       (auto simp add: delete_task_def TaskService_delete_task_def)
  from g have "t0 \<in> set db \<and> t_id t0 = task_id \<and> t_user_id t0 = u_id current_user"
    by (rule get_task_by_id_Some)
  then show "\<exists>t0 \<in> set db. t_id t0 = task_id \<and> t_user_id t0 = u_id current_user" by blast
qed

theorem ownership_isolation_witness:
  "get_task [alice_task] (t_id alice_task) bob = Inl not_found
   \<and> update_task [alice_task] 5 (t_id alice_task) (no_update\<lparr>up_completed := Some (Some True)\<rparr>) bob
       = (Inl not_found, [alice_task])
   \<and> delete_task [alice_task] (t_id alice_task) bob = (Inl not_found, [alice_task])
   \<and> get_task [alice_task] ''00000000-0000-4000-8000-000000000000'' bob = Inl not_found
   \<and> update_task [alice_task] 5 ''00000000-0000-4000-8000-000000000000''
        (no_update\<lparr>up_completed := Some (Some True)\<rparr>) bob
       = (Inl not_found, [alice_task])
   \<and> delete_task [alice_task] ''00000000-0000-4000-8000-000000000000'' bob
       = (Inl not_found, [alice_task])
   \<and> get_task [alice_task] (t_id alice_task) alice = Inr alice_task
   \<and> t_user_id alice_task = u_id alice
   \<and> fst (update_task [alice_task] 5 (t_id alice_task)
             (no_update\<lparr>up_completed := Some (Some True)\<rparr>) alice)
       = Inr (alice_task\<lparr>t_completed := True, t_updated_at := 5\<rparr>)
   \<and> t_user_id (alice_task\<lparr>t_completed := True, t_updated_at := 5\<rparr>) = u_id alice
   \<and> delete_task [alice_task] (t_id alice_task) alice = (Inr ''Task deleted successfully'', [])
   \<and> (\<exists>t0 \<in> set [alice_task]. t_id t0 = t_id alice_task \<and> t_user_id t0 = u_id alice)"
proof -
  have other: "\<forall>t \<in> set [alice_task]. \<not> (t_id t = t_id alice_task \<and> t_user_id t = u_id bob)"
    by (simp add: alice_task_def alice_def bob_def)
  have absent: "\<forall>t \<in> set [alice_task].
      \<not> (t_id t = ''00000000-0000-4000-8000-000000000000'' \<and> t_user_id t = u_id bob)"
    by (simp add: alice_task_def)
  have own: "get_task [alice_task] (t_id alice_task) alice = Inr alice_task"
    by (simp add: get_task_def get_task_by_id_def alice_task_def)
  have upd: "fst (update_task [alice_task] 5 (t_id alice_task)
             (no_update\<lparr>up_completed := Some (Some True)\<rparr>) alice)
       = Inr (alice_task\<lparr>t_completed := True, t_updated_at := 5\<rparr>)"
    by (simp add: update_task_def TaskService_update_task_def get_task_by_id_def
        alice_task_def null_in_required_def no_update_def apply_update_def store_task_def
        Let_def)
  have del: "delete_task [alice_task] (t_id alice_task) alice
       = (Inr ''Task deleted successfully'', [])"
    by (simp add: delete_task_def TaskService_delete_task_def get_task_by_id_def
        alice_task_def)
  note t1 = ownership_isolation
    [of "[alice_task]" "t_id alice_task" bob 5 "no_update\<lparr>up_completed := Some (Some True)\<rparr>"]
  note t2 = ownership_isolation
    [of "[alice_task]" "''00000000-0000-4000-8000-000000000000''" bob 5
        "no_update\<lparr>up_completed := Some (Some True)\<rparr>"]
  note t3 = ownership_isolation
    [of "[alice_task]" "t_id alice_task" alice 5 "no_update\<lparr>up_completed := Some (Some True)\<rparr>"
        alice_task "alice_task\<lparr>t_completed := True, t_updated_at := 5\<rparr>"
        "''Task deleted successfully''"]
  from t1 other have r1: "get_task [alice_task] (t_id alice_task) bob = Inl not_found
      \<and> update_task [alice_task] 5 (t_id alice_task)
           (no_update\<lparr>up_completed := Some (Some True)\<rparr>) bob = (Inl not_found, [alice_task])
      \<and> delete_task [alice_task] (t_id alice_task) bob = (Inl not_found, [alice_task])"
    by blast
  from t2 absent have r2: "get_task [alice_task] ''00000000-0000-4000-8000-000000000000'' bob
        = Inl not_found
      \<and> update_task [alice_task] 5 ''00000000-0000-4000-8000-000000000000''
           (no_update\<lparr>up_completed := Some (Some True)\<rparr>) bob = (Inl not_found, [alice_task])
      \<and> delete_task [alice_task] ''00000000-0000-4000-8000-000000000000'' bob
        = (Inl not_found, [alice_task])"
    by blast
  from t3 own have owner: "t_user_id alice_task = u_id alice"
    by blast
  from t3 upd have owner': "t_user_id (alice_task\<lparr>t_completed := True, t_updated_at := 5\<rparr>)
      = u_id alice"
    by blast
  from del have "fst (delete_task [alice_task] (t_id alice_task) alice)
      = Inr ''Task deleted successfully''"
    by simp
  with t3 have owned: "\<exists>t0 \<in> set [alice_task]. t_id t0 = t_id alice_task
      \<and> t_user_id t0 = u_id alice"
    by blast
  from r1 r2 own owner upd owner' del owned show ?thesis
    by blast
qed

section \<open>Password verification on a malformed hash\<close>

text \<open>
  \<open>verify_password\<close> is the bare call \<open>pwd_context.verify\<close>: on a stored hash that is
  not identified as a bcrypt hash it raises.
\<close>

lemma verify_password_unidentified:
  "\<not> bcrypt_identify hashed
     \<Longrightarrow> verify_password bcrypt_verify plain hashed = Inl UnknownHashError"
  by (simp add: verify_password_def pwd_context_verify_def)

lemma not_a_bcrypt_hash: "\<not> bcrypt_identify ''not-a-bcrypt-hash''"
  by (simp add: bcrypt_identify_def)

lemma erin_email_valid: "validate_email_format ''erin@example.com''"
  by code_simp

text \<open>
  Claim C7 says that \<open>verify_password\<close> returns \<open>False\<close> on every malformed stored hash
  and never raises; its docstring promises ``True if passwords match, False otherwise''.
  On the stored hash \<open>not-a-bcrypt-hash\<close> it raises \<open>UnknownHashError\<close> for every
  password, and its caller has no handler: a login for the user with that stored hash
  ends in the same exception, for every password, instead of the 401.
\<close>

theorem malformed_hash_makes_verify_password_raise:
  "verify_password bcrypt_verify plain ''not-a-bcrypt-hash'' = Inl UnknownHashError
   \<and> authenticate_user bcrypt_verify st now [erin]
        \<lparr>l_email = ''erin@example.com'', l_password = plain\<rparr> = Inl UnknownHashError
   \<and> login_user bcrypt_verify st now [erin]
        \<lparr>l_email = ''erin@example.com'', l_password = plain\<rparr> = Inl UnknownHashError"
proof -
  have v: "verify_password bcrypt_verify plain ''not-a-bcrypt-hash'' = Inl UnknownHashError"
    by (rule verify_password_unidentified [OF not_a_bcrypt_hash])
  have g: "get_user_by_email [erin] ''erin@example.com'' = Some erin"
    by (simp add: get_user_by_email_def erin_def)
  have h: "hashed_password erin = ''not-a-bcrypt-hash''"
    by (simp add: erin_def)
  have a: "authenticate_user bcrypt_verify st now [erin]
        \<lparr>l_email = ''erin@example.com'', l_password = plain\<rparr> = Inl UnknownHashError"
    by (simp add: authenticate_user_def g h v)
  have l: "login_user bcrypt_verify st now [erin]
        \<lparr>l_email = ''erin@example.com'', l_password = plain\<rparr> = Inl UnknownHashError"
    by (simp add: login_user_def erin_email_valid a)
  from v a l show ?thesis by blast
qed

section \<open>The revocation store under failure, and the degraded mode\<close>

lemma redis_setex_unavailable:
  "redis_setex (r\<lparr>r_available := False\<rparr>) now name time = Inl RedisError"
  by (simp add: redis_setex_def)

lemma redis_exists_unavailable:
  "redis_exists (r\<lparr>r_available := False\<rparr>) now name = Inl RedisError"
  by (simp add: redis_exists_def)

text \<open>
  Claim C8 says that a logout whose revocation store fails still returns success and that
  the failure is surfaced to the operational logs. With a store that cannot be reached,
  \<open>blacklist_token\<close> returns \<open>False\<close> and \<open>logout_user\<close> returns the success message,
  for every service, token and user: the first half holds. The handler discards that
  \<open>False\<close> and writes no log record, although its comment reads ``we still return
  success but log the issue''.
\<close>

theorem logout_store_failure_leaves_no_log_record:
  "blacklist_token (svc\<lparr>redis_client := Some (server\<lparr>r_available := False\<rparr>)\<rparr>) now tok None
     = Inr (False, svc\<lparr>redis_client := Some (server\<lparr>r_available := False\<rparr>)\<rparr>)
   \<and> logout_user (svc\<lparr>redis_client := Some (server\<lparr>r_available := False\<rparr>)\<rparr>) now tok usr
     = \<lparr>response = Inr \<lparr>lo_message = ''Successfully logged out'', lo_user_id = u_id usr\<rparr>,
        service = svc\<lparr>redis_client := Some (server\<lparr>r_available := False\<rparr>)\<rparr>,
        log_records = []\<rparr>"
  by (simp add: logout_user_def blacklist_token_def redis_setex_unavailable Let_def)

text \<open>
  Claim C9 (fail-open lookup): whenever the store raises during the lookup,
  \<open>is_token_blacklisted\<close> and \<open>is_user_logged_out\<close> return \<open>False\<close>; in particular, with
  a store that cannot be reached they return \<open>False\<close> for every token and every user id,
  whatever entries the store holds.
\<close>

theorem revocation_lookup_fails_open:
  "(redis_client svc = Some r \<and> redis_exists r now (blacklisted_token_key tok) = Inl e
      \<longrightarrow> is_token_blacklisted svc now tok = False)
   \<and> (redis_client svc = Some r \<and> redis_exists r now (user_logout_key user_id) = Inl e'
      \<longrightarrow> is_user_logged_out svc now user_id = False)
   \<and> is_token_blacklisted (svc\<lparr>redis_client := Some (server\<lparr>r_available := False\<rparr>)\<rparr>) now tok
       = False
   \<and> is_user_logged_out (svc\<lparr>redis_client := Some (server\<lparr>r_available := False\<rparr>)\<rparr>) now
        user_id = False"
  by (simp add: is_token_blacklisted_def is_user_logged_out_def redis_exists_unavailable)

text \<open>
  Claim C10 (degraded mode): with no redis client, \<open>blacklist_user_tokens\<close> returns
  \<open>True\<close> and leaves the service exactly as it was, for every user id, and
  \<open>is_user_logged_out\<close> is then \<open>False\<close> for every user id at every instant.
\<close>

theorem degraded_user_logout_is_noop:
  assumes "redis_client svc = None"
  shows "blacklist_user_tokens svc now user_id expiration = (True, svc)
         \<and> is_user_logged_out (snd (blacklist_user_tokens svc now user_id expiration)) now' user_id'
             = False"
  using assms by (simp add: blacklist_user_tokens_def is_user_logged_out_def)

theorem degraded_user_logout_is_noop_witness:
  "redis_client (TokenService_init st0 server0) = None
   \<and> blacklist_user_tokens (TokenService_init st0 server0) 0 (u_id alice) None
       = (True, TokenService_init st0 server0)
   \<and> is_user_logged_out
        (snd (blacklist_user_tokens (TokenService_init st0 server0) 0 (u_id alice) None))
        1 (u_id alice) = False"
proof -
  have n: "redis_client (TokenService_init st0 server0) = None"
    by (simp add: TokenService_init_def st0_def)
  from degraded_user_logout_is_noop [OF n, of 0 "u_id alice" None 1 "u_id alice"] n
  show ?thesis by blast
qed

section \<open>Revocation and the access guard\<close>

lemma alice_token_eq:
  "alice_token = JWT \<lparr>c_sub = Some (u_id alice), c_email = Some (u_email alice),
                      c_exp = Some 86400, c_type = None\<rparr> (BETTER_AUTH_SECRET st0)"
  by (simp add: alice_token_def create_access_token_signed token_claims_def st0_def
      timedelta_hours_def)

lemma guard_accepts_alice_token:
  "get_current_user st0 2000000 [alice] alice_token = Inr alice"
  by (simp add: get_current_user_def verify_access_token_def verify_token_signed
      alice_token_eq get_user_by_id_def alice_def)

lemma st_redis_secret: "BETTER_AUTH_SECRET st_redis = BETTER_AUTH_SECRET st0"
  by (simp add: st_redis_def)

lemma guard_accepts_alice_token_redis:
  "get_current_user st_redis 2000000 [alice] alice_token = Inr alice"
  by (simp add: get_current_user_def verify_access_token_def verify_token_signed
      alice_token_eq get_user_by_id_def alice_def st_redis_secret)

lemma init_in_memory:
  "TokenService_init st0 server0 = \<lparr>redis_client = None, blacklisted_tokens = {}\<rparr>"
  by (simp add: TokenService_init_def st0_def)

lemma init_redis:
  "TokenService_init st_redis server0
     = \<lparr>redis_client = Some server0, blacklisted_tokens = {}\<rparr>"
  by (simp add: TokenService_init_def st_redis_def st0_def)

lemma blacklist_alice_token_redis:
  "blacklist_token \<lparr>redis_client = Some server0, blacklisted_tokens = {}\<rparr> 1000000
       alice_token None
     = Inr (True, \<lparr>redis_client = Some server1, blacklisted_tokens = {}\<rparr>)"
  by (simp add: blacklist_token_def redis_setex_def server0_def server1_def
      timedelta_hours_def Let_def)

lemma blacklist_alice_redis:
  "blacklist_user_tokens \<lparr>redis_client = Some server1, blacklisted_tokens = {}\<rparr> 1000000
       (u_id alice) None
     = (True, \<lparr>redis_client = Some server2, blacklisted_tokens = {}\<rparr>)"
  by (simp add: blacklist_user_tokens_def redis_setex_def server1_def server2_def
      timedelta_hours_def Let_def)

lemma alice_token_blacklisted_redis:
  "is_token_blacklisted \<lparr>redis_client = Some server1, blacklisted_tokens = {}\<rparr> 2000000
     alice_token = True"
  by (simp add: is_token_blacklisted_def redis_exists_def server1_def)

text \<open>
  Claim C2 says that the guard \<open>get_current_user\<close> rejects a token that was revoked and
  whose revocation entry has not expired, and a token whose user was logged out everywhere.
  \<open>get_current_user\<close> never asks the token service. Alice logs out at the first second,
  which records her token as blacklisted (in the in-memory set, or in redis for 24
  hours); a second later \<open>is_token_blacklisted\<close> is true for it, and after
  \<open>blacklist_user_tokens\<close> so is \<open>is_user_logged_out\<close> for her id, yet the guard
  still returns Alice for that token.
\<close>

theorem revoked_token_passes_guard:
  "logout_route st0 1000000 [alice] (TokenService_init st0 server0) alice_token
     = \<lparr>response = Inr \<lparr>lo_message = ''Successfully logged out'', lo_user_id = u_id alice\<rparr>,
        service = \<lparr>redis_client = None, blacklisted_tokens = {alice_token}\<rparr>,
        log_records = []\<rparr>
   \<and> is_token_blacklisted \<lparr>redis_client = None, blacklisted_tokens = {alice_token}\<rparr>
        2000000 alice_token = True
   \<and> get_current_user st0 2000000 [alice] alice_token = Inr alice
   \<and> logout_route st_redis 1000000 [alice] (TokenService_init st_redis server0) alice_token
     = \<lparr>response = Inr \<lparr>lo_message = ''Successfully logged out'', lo_user_id = u_id alice\<rparr>,
        service = \<lparr>redis_client = Some server1, blacklisted_tokens = {}\<rparr>,
        log_records = []\<rparr>
   \<and> is_token_blacklisted \<lparr>redis_client = Some server1, blacklisted_tokens = {}\<rparr>
        2000000 alice_token = True
   \<and> blacklist_user_tokens \<lparr>redis_client = Some server1, blacklisted_tokens = {}\<rparr> 1000000
        (u_id alice) None
     = (True, \<lparr>redis_client = Some server2, blacklisted_tokens = {}\<rparr>)
   \<and> is_user_logged_out \<lparr>redis_client = Some server2, blacklisted_tokens = {}\<rparr>
        2000000 (u_id alice) = True
   \<and> get_current_user st_redis 2000000 [alice] alice_token = Inr alice"
proof (intro conjI)
  have g1: "get_current_user st0 1000000 [alice] alice_token = Inr alice"
    by (simp add: get_current_user_def verify_access_token_def verify_token_signed
        alice_token_eq get_user_by_id_def alice_def)
  have g2: "get_current_user st_redis 1000000 [alice] alice_token = Inr alice"
    by (simp add: get_current_user_def verify_access_token_def verify_token_signed
        alice_token_eq get_user_by_id_def alice_def st_redis_secret)
  show "logout_route st0 1000000 [alice] (TokenService_init st0 server0) alice_token
     = \<lparr>response = Inr \<lparr>lo_message = ''Successfully logged out'', lo_user_id = u_id alice\<rparr>,
        service = \<lparr>redis_client = None, blacklisted_tokens = {alice_token}\<rparr>,
        log_records = []\<rparr>"
    by (simp add: logout_route_def g1 logout_user_def blacklist_token_def init_in_memory
        Let_def)
  show "is_token_blacklisted \<lparr>redis_client = None, blacklisted_tokens = {alice_token}\<rparr>
        2000000 alice_token = True"
    by (simp add: is_token_blacklisted_def)
  show "get_current_user st0 2000000 [alice] alice_token = Inr alice"
    by (rule guard_accepts_alice_token)
  show "logout_route st_redis 1000000 [alice] (TokenService_init st_redis server0) alice_token
     = \<lparr>response = Inr \<lparr>lo_message = ''Successfully logged out'', lo_user_id = u_id alice\<rparr>,
        service = \<lparr>redis_client = Some server1, blacklisted_tokens = {}\<rparr>,
        log_records = []\<rparr>"
    by (simp add: logout_route_def g2 logout_user_def init_redis blacklist_alice_token_redis)
  show "is_token_blacklisted \<lparr>redis_client = Some server1, blacklisted_tokens = {}\<rparr>
        2000000 alice_token = True"
    by (rule alice_token_blacklisted_redis)
  show "blacklist_user_tokens \<lparr>redis_client = Some server1, blacklisted_tokens = {}\<rparr> 1000000
        (u_id alice) None
     = (True, \<lparr>redis_client = Some server2, blacklisted_tokens = {}\<rparr>)"
    by (rule blacklist_alice_redis)
  show "is_user_logged_out \<lparr>redis_client = Some server2, blacklisted_tokens = {}\<rparr>
        2000000 (u_id alice) = True"
    by (simp add: is_user_logged_out_def redis_exists_def server2_def)
  show "get_current_user st_redis 2000000 [alice] alice_token = Inr alice"
    by (rule guard_accepts_alice_token_redis)
qed

text \<open>
  A run for claim C9: the token blacklisted in redis is reported as blacklisted while the
  store answers, as not blacklisted once the store cannot be reached, and the guard
  accepts it.
\<close>

theorem revocation_lookup_fails_open_witness:
  "is_token_blacklisted \<lparr>redis_client = Some server1, blacklisted_tokens = {}\<rparr> 2000000
     alice_token = True
   \<and> redis_client \<lparr>redis_client = Some (server1\<lparr>r_available := False\<rparr>),
                    blacklisted_tokens = {}\<rparr>
       = Some (server1\<lparr>r_available := False\<rparr>)
   \<and> redis_exists (server1\<lparr>r_available := False\<rparr>) 2000000 (blacklisted_token_key alice_token)
       = Inl RedisError
   \<and> is_token_blacklisted
        \<lparr>redis_client = Some (server1\<lparr>r_available := False\<rparr>), blacklisted_tokens = {}\<rparr>
        2000000 alice_token = False
   \<and> redis_exists (server1\<lparr>r_available := False\<rparr>) 2000000 (user_logout_key (u_id alice))
       = Inl RedisError
   \<and> is_user_logged_out
        \<lparr>redis_client = Some (server1\<lparr>r_available := False\<rparr>), blacklisted_tokens = {}\<rparr>
        2000000 (u_id alice) = False
   \<and> get_current_user st_redis 2000000 [alice] alice_token = Inr alice"
proof -
  let ?down = "server1\<lparr>r_available := False\<rparr>"
  let ?svc = "\<lparr>redis_client = Some ?down, blacklisted_tokens = {}\<rparr>"
  have c: "redis_client ?svc = Some ?down" by simp
  have e1: "redis_exists ?down 2000000 (blacklisted_token_key alice_token) = Inl RedisError"
    by (rule redis_exists_unavailable)
  have e2: "redis_exists ?down 2000000 (user_logout_key (u_id alice)) = Inl RedisError"
    by (rule redis_exists_unavailable)
  note t = revocation_lookup_fails_open
    [of ?svc ?down 2000000 alice_token RedisError "u_id alice" RedisError server1]
  from t c e1 have r1: "is_token_blacklisted ?svc 2000000 alice_token = False" by blast
  from t c e2 have r2: "is_user_logged_out ?svc 2000000 (u_id alice) = False" by blast
  from alice_token_blacklisted_redis c e1 r1 e2 r2 guard_accepts_alice_token_redis
  show ?thesis by blast
qed

end
